theory Spec2Isabelle
  imports Main "HOL-Library.Word"
begin

section \<open>Strings and JSON values of the runtime\<close>

text \<open>
  An ECMAScript string is a sequence of 16-bit code units. A regular expression without
  the \<open>u\<close> flag, \<open>String.prototype.includes\<close> and \<open>trim\<close> all work on code units.
  \<open>js\<close> turns an ASCII literal of this text into such a string.
\<close>

type_synonym jschar = "16 word"
type_synonym jsstring = "jschar list"

definition js :: "string \<Rightarrow> jsstring" where
  "js s = map of_char s"

definition is_high_surrogate :: "jschar \<Rightarrow> bool" where
  "is_high_surrogate c = (0xD800 \<le> c \<and> c \<le> 0xDBFF)"

definition is_low_surrogate :: "jschar \<Rightarrow> bool" where
  "is_low_surrogate c = (0xDC00 \<le> c \<and> c \<le> 0xDFFF)"


text \<open>
  The values \<open>JSON.parse\<close> can return. An object is the list of its own properties in
  creation order. Numbers are integers: the interfaces of \<open>session.ts\<close> use \<open>number\<close>
  for a port and an exit code only, and no other number is ever inspected.
\<close>

datatype json =
    JNull
  | JBool bool
  | JNum int
  | JStr jsstring
  | JArr "json list"
  | JObj "(jsstring \<times> json) list"

datatype error =
    ENOENT
  | EACCES
  | SyntaxError
  | TypeError
  | RequestTimedOut
  | TransportError

text \<open>
  The file system: the text a file holds, as a read with the \<open>utf-8\<close> encoding returns
  it, and the paths a write fails on. \<open>readFileSync\<close> raises when there is no file to
  read; \<open>writeFile\<close> replaces the whole content or raises.
\<close>

record filesystem =
  files :: "jsstring \<rightharpoonup> jsstring"
  unwritable :: "jsstring \<Rightarrow> bool"

definition readFileSync :: "filesystem \<Rightarrow> jsstring \<Rightarrow> error + jsstring" where
  "readFileSync fs path = (case files fs path of None \<Rightarrow> Inl ENOENT | Some text \<Rightarrow> Inr text)"


text \<open>
  Reading a property \<open>v.k\<close> of a parsed value: \<open>null\<close> has no properties and the read
  raises a TypeError; an object yields its own property or \<open>undefined\<close> (\<open>None\<close>); the
  other values have no own property under the configuration keys read by the agent.
\<close>

fun get_prop :: "json \<Rightarrow> jsstring \<Rightarrow> error + json option" where
  "get_prop JNull k = Inl TypeError"
| "get_prop (JObj kvs) k = Inr (map_of kvs k)"
| "get_prop (JBool b) k = Inr None"
| "get_prop (JNum n) k = Inr None"
| "get_prop (JStr s) k = Inr None"
| "get_prop (JArr vs) k = Inr None"

section \<open>Regular expressions\<close>

text \<open>
  The patterns of \<open>secagent.ts\<close> use literals, classes, \<open>.\<close>, \<open>^\<close>, \<open>$\<close>, \<open>\b\<close>,
  groups, alternation and the quantifiers \<open>*\<close>, \<open>+\<close>, \<open>?\<close>; none has a flag.
  \<open>ends r s i\<close> lists every index at which a match of \<open>r\<close> that starts at index \<open>i\<close>
  of the subject \<open>s\<close> can end, in the order in which a backtracking matcher tries them.
  \<open>RegExp.prototype.test\<close> succeeds when a match exists from some start index.
\<close>

datatype citem =
    Single jschar
  | Range jschar jschar
  | Word_class
  | Digit_class
  | Space_class

datatype regex =
    Eps
  | Chr jschar
  | Dot
  | Set "citem list"
  | NotSet "citem list"
  | Bol
  | Eol
  | WordB
  | Seq regex regex
  | Alt regex regex
  | Opt regex
  | Star regex

definition is_digit :: "jschar \<Rightarrow> bool" where
  "is_digit c = (0x30 \<le> c \<and> c \<le> 0x39)"

definition is_word :: "jschar \<Rightarrow> bool" where
  "is_word c =
     ((0x61 \<le> c \<and> c \<le> 0x7A) \<or> (0x41 \<le> c \<and> c \<le> 0x5A) \<or> is_digit c \<or> c = 0x5F)"

definition is_line_terminator :: "jschar \<Rightarrow> bool" where
  "is_line_terminator c = (c = 0x0A \<or> c = 0x0D \<or> c = 0x2028 \<or> c = 0x2029)"

text \<open>\<open>\s\<close>, and what \<open>trim\<close> strips: WhiteSpace and LineTerminator of ECMAScript.\<close>

definition is_space :: "jschar \<Rightarrow> bool" where
  "is_space c =
     (c = 0x09 \<or> c = 0x0B \<or> c = 0x0C \<or> c = 0x20 \<or> c = 0xA0 \<or> c = 0x1680
      \<or> (0x2000 \<le> c \<and> c \<le> 0x200A) \<or> c = 0x202F \<or> c = 0x205F \<or> c = 0x3000
      \<or> c = 0xFEFF \<or> is_line_terminator c)"

fun in_item :: "jschar \<Rightarrow> citem \<Rightarrow> bool" where
  "in_item c (Single d) = (c = d)"
| "in_item c (Range lo hi) = (lo \<le> c \<and> c \<le> hi)"
| "in_item c Word_class = is_word c"
| "in_item c Digit_class = is_digit c"
| "in_item c Space_class = is_space c"

definition step :: "(jschar \<Rightarrow> bool) \<Rightarrow> jsstring \<Rightarrow> nat \<Rightarrow> nat list" where
  "step p s i = (if i < length s \<and> p (s ! i) then [Suc i] else [])"

text \<open>
  Iterations of a starred group: an iteration that consumes nothing is rejected by the
  matcher, so every iteration moves forward and \<open>length s - i\<close> rounds reach every end.
\<close>

fun iter :: "nat \<Rightarrow> (nat \<Rightarrow> nat list) \<Rightarrow> nat \<Rightarrow> nat list" where
  "iter 0 f i = [i]"
| "iter (Suc n) f i = concat (map (iter n f) (filter (\<lambda>j. i < j) (f i))) @ [i]"

fun ends :: "regex \<Rightarrow> jsstring \<Rightarrow> nat \<Rightarrow> nat list" where
  "ends Eps s i = [i]"
| "ends (Chr c) s i = step (\<lambda>d. d = c) s i"
| "ends Dot s i = step (\<lambda>d. \<not> is_line_terminator d) s i"
| "ends (Set cs) s i = step (\<lambda>d. list_ex (in_item d) cs) s i"
| "ends (NotSet cs) s i = step (\<lambda>d. \<not> list_ex (in_item d) cs) s i"
| "ends Bol s i = (if i = 0 then [i] else [])"
| "ends Eol s i = (if i = length s then [i] else [])"
| "ends WordB s i =
     (if (0 < i \<and> is_word (s ! (i - 1))) \<noteq> (i < length s \<and> is_word (s ! i))
      then [i] else [])"
| "ends (Seq r1 r2) s i = concat (map (ends r2 s) (ends r1 s i))"
| "ends (Alt r1 r2) s i = ends r1 s i @ ends r2 s i"
| "ends (Opt r) s i = ends r s i @ [i]"
| "ends (Star r) s i = iter (length s - i) (ends r s) i"

definition Plus :: "regex \<Rightarrow> regex" where
  "Plus r = Seq r (Star r)"

definition lit :: "string \<Rightarrow> regex" where
  "lit s = foldr (\<lambda>c r. Seq (Chr (of_char c)) r) s Eps"

definition seq :: "regex list \<Rightarrow> regex" where
  "seq rs = foldr Seq rs Eps"

definition test :: "regex \<Rightarrow> jsstring \<Rightarrow> bool" where
  "test r s = list_ex (\<lambda>i. ends r s i \<noteq> []) [0..<Suc (length s)]"

text \<open>\<open>Array.prototype.some\<close> over a list of patterns.\<close>

definition some_pattern :: "regex list \<Rightarrow> jsstring \<Rightarrow> bool" where
  "some_pattern ps s = list_ex (\<lambda>p. test p s) ps"

section \<open>The security agent (\<open>secagent.ts\<close>)\<close>

definition MAX_RETRIES :: nat where
  "MAX_RETRIES = 3"

definition FALLBACK_MODELS :: "jsstring list" where
  "FALLBACK_MODELS = [js ''llama2'', js ''llama2-uncensored'', js ''mistral'', js ''gemma'']"

record secagent =
  secagentconfig :: json
  availableModels :: "jsstring list"

text \<open>
  The constructor reads and parses the configuration file inside a \<open>try\<close>; the
  \<open>catch\<close> installs the default configuration. \<open>parse\<close> stands for \<open>JSON.parse\<close>
  (\<open>None\<close> when it raises a SyntaxError): the constructor is modelled for every parser,
  since nothing here depends on which texts parse. \<open>availableModels\<close> starts empty;
  \<open>initializeAsync\<close> fills it in later, and only on the path where the \<open>try\<close>
  succeeded.
\<close>

definition default_config :: json where
  "default_config =
     JObj [(js ''ENABLE_SECAGENT'', JBool False),
           (js ''SECURITY_POLICY'', JStr (js (''Only '' @ [CHR 0x27] @ ''ls'' @ [CHR 0x27] @ '' command is safe'')))]"

definition secagent_constructor ::
  "(jsstring \<Rightarrow> json option) \<Rightarrow> filesystem \<Rightarrow> jsstring \<Rightarrow> secagent" where
  "secagent_constructor parse fs configfilepath =
     (case readFileSync fs configfilepath of
        Inl e \<Rightarrow> \<lparr>secagentconfig = default_config, availableModels = []\<rparr>
      | Inr text \<Rightarrow>
          (case parse text of
             None \<Rightarrow> \<lparr>secagentconfig = default_config, availableModels = []\<rparr>
           | Some cfg \<Rightarrow> \<lparr>secagentconfig = cfg, availableModels = []\<rparr>))"

text \<open>\<open>listed\<close> is the outcome of \<open>ollama.list()\<close>, mapped to the model names.\<close>

definition initializeAsync :: "error + jsstring list \<Rightarrow> secagent \<Rightarrow> secagent" where
  "initializeAsync listed a =
     (case listed of
        Inr names \<Rightarrow> a\<lparr>availableModels := names\<rparr>
      | Inl e \<Rightarrow> a\<lparr>availableModels := []\<rparr>)"

fun first_available :: "jsstring list \<Rightarrow> jsstring list \<Rightarrow> jsstring" where
  "first_available avail [] = js ''llama2''"
| "first_available avail (model # rest) =
     (if List.member avail model then model else first_available avail rest)"

definition getAvailableModel :: "secagent \<Rightarrow> jsstring" where
  "getAvailableModel a = first_available (availableModels a) FALLBACK_MODELS"

definition sp :: regex where
  "sp = Set [Space_class]"

definition alpha :: regex where
  "alpha = Set [Range 0x61 0x7A, Range 0x41 0x5A]"

definition pathc :: regex where
  "pathc = Set [Word_class, Single 0x2F, Single 0x2E, Single 0x5F, Single 0x2D]"

definition unsafe_patterns :: "regex list" where
  "unsafe_patterns =
    [seq [lit ''rm'', Plus sp, Star (seq [lit ''-'', Plus (Set [Word_class]), Plus sp]), lit ''/''],
     seq [lit ''chmod'', Plus sp, lit ''777'', WordB],
     lit ''mkfs'',
     seq [lit ''dd'', Plus sp, lit ''if='', Plus Dot, lit ''of=/dev''],
     Alt (seq [lit '':'', Eps, lit ''{:'']) (lit '':&};:''),
     seq [lit ''wget'', Plus Dot, lit ''|'', Star sp, lit ''sh''],
     seq [lit ''curl'', Plus Dot, lit ''|'', Star sp, lit ''sh''],
     seq [lit ''sudo'', Plus sp, lit ''rm'', Plus sp, lit ''-rf'', Plus sp, lit ''/*'']]"

definition isObviouslyUnsafe :: "jsstring \<Rightarrow> bool" where
  "isObviouslyUnsafe command = some_pattern unsafe_patterns command"

definition safe_commands :: "regex list" where
  "safe_commands =
    [seq [Bol, lit ''ls'', Star (seq [Plus sp, lit ''-'', Plus alpha]), Eol],
     seq [Bol, lit ''pwd'', Eol],
     seq [Bol, lit ''echo'', Plus sp, Star (NotSet [Single 0x7C, Single 0x3E, Single 0x3B]), Eol],
     seq [Bol, lit ''cd'', Plus sp, Plus pathc, Eol],
     seq [Bol, lit ''cat'', Plus sp, Plus pathc, Eol],
     seq [Bol, lit ''mkdir'', Plus sp, Opt (lit ''-''), Opt (lit ''p''), Plus sp, Plus pathc, Eol],
     seq [Bol, lit ''cp'', Plus sp, Opt (lit ''-''), Opt (lit ''r''), Plus sp, Plus pathc,
          Plus sp, Plus pathc, Eol],
     seq [Bol, lit ''df'', Plus sp, lit ''-'', Plus alpha, Eol],
     seq [Bol, lit ''du'', Plus sp, lit ''-'', Plus alpha, Eol],
     seq [Bol, lit ''ps'', Plus sp,
          Plus (Set [Single 0x61, Single 0x75, Single 0x78, Single 0x65, Single 0x66]), Eol],
     seq [Bol, lit ''grep'', Plus sp, Opt (lit ''-''), Star alpha, Plus sp, Chr 0x22,
          Plus (NotSet [Single 0x22]), Chr 0x22, Plus sp, Plus pathc, Eol],
     seq [Bol, lit ''ping'', Plus sp, lit ''-c'', Plus sp, Plus (Set [Digit_class]), Plus sp,
          Plus (Set [Word_class, Single 0x2E, Single 0x2D]), Eol],
     seq [Bol, lit ''uname'', Plus sp, lit ''-'', Plus alpha, Eol],
     seq [Bol, lit ''whoami'', Eol],
     seq [Bol, lit ''date'', Eol],
     seq [Bol, lit ''apt'', Plus sp,
          Alt (lit ''update'')
            (Alt (lit ''list'') (seq [lit ''search'', Plus sp, Plus (Set [Word_class, Single 0x2D])])),
          Eol]]"

definition isStaticallySafe :: "jsstring \<Rightarrow> bool" where
  "isStaticallySafe command = some_pattern safe_commands command"

text \<open>
  One pass through the \<open>try\<close> block of the retry loop. Building the prompt, the request
  and its race against the timeout belong to the inference collaborator: \<open>generate\<close>
  gets the attempt number, the model, the \<open>SECURITY_POLICY\<close> property and the command,
  and either raises (\<open>Threw\<close>: the timeout, a transport failure) or yields a response
  object, whose \<open>response\<close> property is a string or not (\<open>Responded None\<close>: calling
  \<open>trim\<close> on it raises a TypeError). \<open>upper\<close> stands for \<open>toUpperCase\<close>.
\<close>

datatype attempt_outcome = Threw error | Responded "jsstring option"

type_synonym generate = "nat \<Rightarrow> jsstring \<Rightarrow> json option \<Rightarrow> jsstring \<Rightarrow> attempt_outcome"

definition trim :: "jsstring \<Rightarrow> jsstring" where
  "trim s = rev (dropWhile is_space (rev (dropWhile is_space s)))"

fun starts_with :: "jsstring \<Rightarrow> jsstring \<Rightarrow> bool" where
  "starts_with s [] = True"
| "starts_with [] (n # ns) = False"
| "starts_with (c # cs) (n # ns) = (c = n \<and> starts_with cs ns)"

fun includes_js :: "jsstring \<Rightarrow> jsstring \<Rightarrow> bool" where
  "includes_js [] needle = (needle = [])"
| "includes_js (c # cs) needle = (starts_with (c # cs) needle \<or> includes_js cs needle)"

text \<open>
  A property read after the first one succeeded: the configuration is not \<open>null\<close> then,
  and the read yields the property or \<open>undefined\<close>.
\<close>

definition own_prop :: "json \<Rightarrow> jsstring \<Rightarrow> json option" where
  "own_prop v k = (case get_prop v k of Inl e \<Rightarrow> None | Inr p \<Rightarrow> p)"

definition attempt_once ::
  "(jsstring \<Rightarrow> jsstring) \<Rightarrow> generate \<Rightarrow> secagent \<Rightarrow> jsstring \<Rightarrow> nat \<Rightarrow> error + bool" where
  "attempt_once upper gen a command attempt =
     (case gen attempt (getAvailableModel a) (own_prop (secagentconfig a) (js ''SECURITY_POLICY''))
             command of
        Threw e \<Rightarrow> Inl e
      | Responded None \<Rightarrow> Inl TypeError
      | Responded (Some text) \<Rightarrow> Inr (\<not> includes_js (upper (trim text)) (js ''UNSAFE'')))"

text \<open>
  The checks a call performs, in order: the deny patterns, the allow patterns, and each
  request to the classifier with its attempt number.
\<close>

datatype check = DenyPatterns | AllowPatterns | Classifier nat

text \<open>
  The \<open>for\<close> loop over the attempts \<open>1 .. MAX_RETRIES\<close>: the first attempt that
  yields a verdict returns it; \<open>None\<close> is the fall through after the last failure.
\<close>

function retry_loop ::
  "(jsstring \<Rightarrow> jsstring) \<Rightarrow> generate \<Rightarrow> secagent \<Rightarrow> jsstring \<Rightarrow> nat \<Rightarrow> check list
     \<Rightarrow> bool option \<times> check list" where
  "retry_loop upper gen a command attempt performed =
     (if attempt \<le> MAX_RETRIES then
        (case attempt_once upper gen a command attempt of
           Inr isSafe \<Rightarrow> (Some isSafe, performed @ [Classifier attempt])
         | Inl e \<Rightarrow> retry_loop upper gen a command (attempt + 1) (performed @ [Classifier attempt]))
      else (None, performed))"
  by pat_completeness auto
termination
  by (relation "measure (\<lambda>(upper, gen, a, command, attempt, performed). Suc MAX_RETRIES - attempt)")
     auto

text \<open>
  \<open>checkCommandSafety\<close>: the verdict (\<open>True\<close> is SAFE) with the checks performed, or the
  TypeError of reading a property of a configuration that is \<open>null\<close>.
\<close>

definition checkCommandSafety ::
  "(jsstring \<Rightarrow> jsstring) \<Rightarrow> generate \<Rightarrow> secagent \<Rightarrow> jsstring \<Rightarrow> error + bool \<times> check list" where
  "checkCommandSafety upper gen a command =
     (case get_prop (secagentconfig a) (js ''ENABLE_SECAGENT'') of
        Inl e \<Rightarrow> Inl e
      | Inr enabled \<Rightarrow>
          if enabled \<noteq> Some (JBool True) then Inr (True, [])
          else if isObviouslyUnsafe command then Inr (False, [DenyPatterns])
          else if own_prop (secagentconfig a) (js ''USE_STATIC_CHECKS_ONLY'') = Some (JBool True)
            then Inr (isStaticallySafe command, [DenyPatterns, AllowPatterns])
          else if own_prop (secagentconfig a) (js ''USE_LOCAL_LLM'') \<noteq> Some (JBool True)
            then Inr (isStaticallySafe command, [DenyPatterns, AllowPatterns])
          else if length (availableModels a) = 0
            then Inr (isStaticallySafe command, [DenyPatterns, AllowPatterns])
          else
            (case retry_loop upper gen a command 1 [DenyPatterns] of
               (Some isSafe, performed) \<Rightarrow> Inr (isSafe, performed)
             | (None, performed) \<Rightarrow> Inr (isStaticallySafe command, performed @ [AllowPatterns])))"

section \<open>The session manager (\<open>session.ts\<close>)\<close>

record CommandResult =
  exitCode :: int
  signal :: jsstring
  stdout :: jsstring
  stderr :: jsstring
  completedAt :: jsstring

record CommandInfo =
  command :: jsstring
  executedAt :: jsstring
  result :: "CommandResult option"

record ConnectionInfo =
  host :: jsstring
  port :: int
  username :: jsstring
  connectedAt :: jsstring

text \<open>
  The argument of \<open>restoreFromCheckpoint\<close>, read at the interface type. The only caller
  passes the unchecked result of \<open>loadCheckpoint\<close>, so either property may be missing:
  \<open>ckpt_connectionInfo\<close> is \<open>None\<close> when the property is absent or falsy, and
  \<open>ckpt_commands\<close> is \<open>None\<close> when \<open>commands\<close> is absent or is no array, as for the
  file \<open>{}\<close>. A value of the interface type has \<open>ckpt_commands\<close> present.
\<close>

record SessionCheckpoint =
  ckpt_connectionInfo :: "ConnectionInfo option"
  ckpt_commands :: "CommandInfo list option"

record sessionManager =
  connectionInfo :: "ConnectionInfo option"
  commands :: "CommandInfo list"

definition new_sessionManager :: sessionManager where
  "new_sessionManager = \<lparr>connectionInfo = None, commands = []\<rparr>"

definition setConnectionInfo :: "ConnectionInfo \<Rightarrow> sessionManager \<Rightarrow> sessionManager" where
  "setConnectionInfo info s = s\<lparr>connectionInfo := Some info\<rparr>"

text \<open>\<open>now\<close> is the value of \<open>new Date().toISOString()\<close> at the call.\<close>

definition addCommand :: "jsstring \<Rightarrow> jsstring \<Rightarrow> sessionManager \<Rightarrow> sessionManager" where
  "addCommand cmd now s =
     s\<lparr>commands := commands s @ [\<lparr>command = cmd, executedAt = now, result = None\<rparr>]\<rparr>"

text \<open>\<open>Array.prototype.findIndex\<close>: the first index that satisfies; \<open>None\<close> is \<open>-1\<close>.\<close>

fun findIndex :: "('a \<Rightarrow> bool) \<Rightarrow> 'a list \<Rightarrow> nat option" where
  "findIndex p [] = None"
| "findIndex p (x # xs) = (if p x then Some 0 else map_option Suc (findIndex p xs))"

definition setCommandResult :: "jsstring \<Rightarrow> CommandResult \<Rightarrow> sessionManager \<Rightarrow> sessionManager" where
  "setCommandResult cmdtext res s =
     (case findIndex (\<lambda>cmd. command cmd = cmdtext) (commands s) of
        None \<Rightarrow> s
      | Some cmdIndex \<Rightarrow>
          s\<lparr>commands := (commands s)[cmdIndex := (commands s ! cmdIndex)\<lparr>result := Some res\<rparr>]\<rparr>)"

definition getCommandHistory :: "sessionManager \<Rightarrow> CommandInfo list" where
  "getCommandHistory s = commands s"

text \<open>
  A value as the program holds it in memory: what \<open>JSON.parse\<close> can return and, in
  addition, \<open>undefined\<close>, which a property can hold. An object is the list of its own
  properties in creation order; a property that holds \<open>undefined\<close> is a property.
\<close>

datatype jsvalue =
    VUndefined
  | VNull
  | VBool bool
  | VNum int
  | VStr jsstring
  | VArr "jsvalue list"
  | VObj "(jsstring \<times> jsvalue) list"

text \<open>
  The objects of the session in memory, with their properties in the order in which the
  code creates them: a record of the history is the literal of \<open>addCommand\<close>, to which
  \<open>setCommandResult\<close> adds the property \<open>result\<close>; the result and the connection
  metadata are the literals of the handlers of \<open>index.ts\<close>.
\<close>

definition value_of_result :: "CommandResult \<Rightarrow> jsvalue" where
  "value_of_result r =
     VObj [(js ''exitCode'', VNum (exitCode r)),
           (js ''signal'', VStr (signal r)),
           (js ''stdout'', VStr (stdout r)),
           (js ''stderr'', VStr (stderr r)),
           (js ''completedAt'', VStr (completedAt r))]"

definition value_of_command :: "CommandInfo \<Rightarrow> jsvalue" where
  "value_of_command c =
     VObj ([(js ''command'', VStr (command c)), (js ''executedAt'', VStr (executedAt c))]
           @ (case result c of None \<Rightarrow> [] | Some r \<Rightarrow> [(js ''result'', value_of_result r)]))"

definition value_of_connection :: "ConnectionInfo \<Rightarrow> jsvalue" where
  "value_of_connection info =
     VObj [(js ''host'', VStr (host info)),
           (js ''port'', VNum (port info)),
           (js ''username'', VStr (username info)),
           (js ''connectedAt'', VStr (connectedAt info))]"

text \<open>
  \<open>getCheckpoint\<close> returns an object literal with both properties: \<open>connectionInfo\<close>
  is always an own property of it, and holds \<open>undefined\<close> as long as no connection was
  made.
\<close>

definition getCheckpoint :: "sessionManager \<Rightarrow> jsvalue" where
  "getCheckpoint s =
     VObj [(js ''connectionInfo'',
            (case connectionInfo s of None \<Rightarrow> VUndefined | Some info \<Rightarrow> value_of_connection info)),
           (js ''commands'', VArr (map value_of_command (commands s)))]"

text \<open>
  \<open>restoreFromCheckpoint\<close> guards both assignments: \<open>if (checkpoint.connectionInfo)\<close>
  and \<open>if (checkpoint.commands && Array.isArray(checkpoint.commands))\<close>. Where a guard
  fails, the field of the session keeps the value it had.
\<close>

definition restoreFromCheckpoint :: "SessionCheckpoint \<Rightarrow> sessionManager \<Rightarrow> sessionManager" where
  "restoreFromCheckpoint checkpoint s =
     (let s1 = (case ckpt_connectionInfo checkpoint of
                  Some info \<Rightarrow> s\<lparr>connectionInfo := Some info\<rparr>
                | None \<Rightarrow> s)
      in (case ckpt_commands checkpoint of
            Some cmds \<Rightarrow> s1\<lparr>commands := cmds\<rparr>
          | None \<Rightarrow> s1))"

text \<open>Sequences of the mutating operations other than \<open>restoreFromCheckpoint\<close>.\<close>

datatype session_op =
    SetConnectionInfo ConnectionInfo
  | AddCommand jsstring jsstring
  | SetCommandResult jsstring CommandResult

fun apply_op :: "sessionManager \<Rightarrow> session_op \<Rightarrow> sessionManager" where
  "apply_op s (SetConnectionInfo info) = setConnectionInfo info s"
| "apply_op s (AddCommand cmd now) = addCommand cmd now s"
| "apply_op s (SetCommandResult cmd res) = setCommandResult cmd res s"

definition run_ops :: "sessionManager \<Rightarrow> session_op list \<Rightarrow> sessionManager" where
  "run_ops s ops = foldl apply_op s ops"

section \<open>JSON text and the checkpoint file (\<open>session.ts\<close>)\<close>

text \<open>
  The text of \<open>JSON.stringify(value, null, 2)\<close> for a value without \<open>undefined\<close>,
  after SerializeJSONProperty of ECMAScript with the gap of two spaces: an empty array or
  object is \<open>[]\<close> or \<open>{}\<close>; otherwise every
  element or member starts a new line, indented by the gap once more than its parent,
  and a member is the quoted key, a colon, a space and the value. A number is printed in
  decimal, as ECMAScript prints every integer of magnitude below \<open>10\<^sup>2\<^sup>1\<close>.
\<close>

definition gap :: jsstring where
  "gap = [0x20, 0x20]"

definition newline :: jsstring where
  "newline = [0x0A]"

definition digit_of :: "nat \<Rightarrow> jschar" where
  "digit_of d = of_nat (48 + d)"

fun digits :: "nat \<Rightarrow> jsstring" where
  "digits n = (if n < 10 then [digit_of n] else digits (n div 10) @ [digit_of (n mod 10)])"

definition number_to_string :: "int \<Rightarrow> jsstring" where
  "number_to_string n = (if n < 0 then 0x2D # digits (nat (- n)) else digits (nat n))"

text \<open>
  QuoteJSONString: the two-character escapes, \<open>\u\<close> with four lower-case hexadecimal
  digits for the other control characters and for a surrogate without partner, and
  every other code unit as it is. A high surrogate followed by a low one is a pair.
\<close>

definition hex_digit :: "nat \<Rightarrow> jschar" where
  "hex_digit d = (if d < 10 then digit_of d else of_nat (87 + d))"

definition unicode_escape :: "jschar \<Rightarrow> jsstring" where
  "unicode_escape c =
     [0x5C, 0x75, hex_digit (unat c div 4096), hex_digit (unat c div 256 mod 16),
      hex_digit (unat c div 16 mod 16), hex_digit (unat c mod 16)]"

definition quote_unit :: "jschar \<Rightarrow> jsstring" where
  "quote_unit c =
     (if c = 0x08 then [0x5C, 0x62]
      else if c = 0x09 then [0x5C, 0x74]
      else if c = 0x0A then [0x5C, 0x6E]
      else if c = 0x0C then [0x5C, 0x66]
      else if c = 0x0D then [0x5C, 0x72]
      else if c = 0x22 then [0x5C, 0x22]
      else if c = 0x5C then [0x5C, 0x5C]
      else if c < 0x20 \<or> is_high_surrogate c \<or> is_low_surrogate c then unicode_escape c
      else [c])"

fun quote_body :: "jsstring \<Rightarrow> jsstring" where
  "quote_body [] = []"
| "quote_body [c] = quote_unit c"
| "quote_body (c # d # cs) =
     (if is_high_surrogate c \<and> is_low_surrogate d then c # d # quote_body cs
      else quote_unit c @ quote_body (d # cs))"

definition quote :: "jsstring \<Rightarrow> jsstring" where
  "quote s = 0x22 # quote_body s @ [0x22]"

fun stringify :: "jsstring \<Rightarrow> json \<Rightarrow> jsstring"
  and stringify_elems :: "jsstring \<Rightarrow> json list \<Rightarrow> jsstring"
  and stringify_members :: "jsstring \<Rightarrow> (jsstring \<times> json) list \<Rightarrow> jsstring" where
  "stringify ind JNull = js ''null''"
| "stringify ind (JBool b) = (if b then js ''true'' else js ''false'')"
| "stringify ind (JNum n) = number_to_string n"
| "stringify ind (JStr s) = quote s"
| "stringify ind (JArr vs) =
     (if vs = [] then js ''[]''
      else js ''['' @ newline @ (ind @ gap) @ stringify_elems (ind @ gap) vs
           @ newline @ ind @ js '']'')"
| "stringify ind (JObj kvs) =
     (if kvs = [] then js ''{}''
      else js ''{'' @ newline @ (ind @ gap) @ stringify_members (ind @ gap) kvs
           @ newline @ ind @ js ''}'')"
| "stringify_elems ind [] = []"
| "stringify_elems ind [v] = stringify ind v"
| "stringify_elems ind (v # w # vs) =
     stringify ind v @ js '','' @ newline @ ind @ stringify_elems ind (w # vs)"
| "stringify_members ind [] = []"
| "stringify_members ind [(k, v)] = quote k @ js '': '' @ stringify ind v"
| "stringify_members ind ((k, v) # kv # kvs) =
     quote k @ js '': '' @ stringify ind v @ js '','' @ newline @ ind
       @ stringify_members ind (kv # kvs)"

text \<open>
  What \<open>JSON.stringify\<close> keeps of a value in memory: a member that holds \<open>undefined\<close>
  is left out, an array element that is \<open>undefined\<close> is printed as \<open>null\<close>, and for
  \<open>undefined\<close> itself there is no text: \<open>JSON.stringify\<close> returns \<open>undefined\<close>.
\<close>

fun serialized :: "jsvalue \<Rightarrow> json option"
  and serialized_elems :: "jsvalue list \<Rightarrow> json list"
  and serialized_members :: "(jsstring \<times> jsvalue) list \<Rightarrow> (jsstring \<times> json) list" where
  "serialized VUndefined = None"
| "serialized VNull = Some JNull"
| "serialized (VBool b) = Some (JBool b)"
| "serialized (VNum n) = Some (JNum n)"
| "serialized (VStr s) = Some (JStr s)"
| "serialized (VArr vs) = Some (JArr (serialized_elems vs))"
| "serialized (VObj kvs) = Some (JObj (serialized_members kvs))"
| "serialized_elems [] = []"
| "serialized_elems (v # vs) =
     (case serialized v of None \<Rightarrow> JNull | Some j \<Rightarrow> j) # serialized_elems vs"
| "serialized_members [] = []"
| "serialized_members ((k, v) # kvs) =
     (case serialized v of
        None \<Rightarrow> serialized_members kvs
      | Some j \<Rightarrow> (k, j) # serialized_members kvs)"

definition JSON_stringify :: "jsvalue \<Rightarrow> jsstring option" where
  "JSON_stringify v = map_option (stringify []) (serialized v)"

text \<open>
  \<open>JSON.parse\<close>: a recursive-descent parser of the JSON grammar. Each function gets the
  text left to read and returns the value with the text after it. The first argument
  bounds the calls still allowed; \<open>JSON_parse\<close> starts with more than the text can use.
  A later member with a key already present replaces the value of that key. Of the
  number syntax the integers are modelled: a fraction or an exponent is rejected.
\<close>

definition is_json_ws :: "jschar \<Rightarrow> bool" where
  "is_json_ws c = (c = 0x20 \<or> c = 0x09 \<or> c = 0x0A \<or> c = 0x0D)"

definition skip_ws :: "jsstring \<Rightarrow> jsstring" where
  "skip_ws s = dropWhile is_json_ws s"

definition hex_val :: "jschar \<Rightarrow> nat option" where
  "hex_val c =
     (if 0x30 \<le> c \<and> c \<le> 0x39 then Some (unat c - 48)
      else if 0x61 \<le> c \<and> c \<le> 0x66 then Some (unat c - 87)
      else if 0x41 \<le> c \<and> c \<le> 0x46 then Some (unat c - 55)
      else None)"

definition hex4 :: "jsstring \<Rightarrow> jschar option" where
  "hex4 hs =
     (case map hex_val hs of
        [Some a, Some b, Some c, Some d] \<Rightarrow> Some (of_nat (a * 4096 + b * 256 + c * 16 + d))
      | _ \<Rightarrow> None)"

definition unescape :: "jschar \<Rightarrow> jschar option" where
  "unescape e =
     (if e = 0x22 then Some 0x22
      else if e = 0x5C then Some 0x5C
      else if e = 0x2F then Some 0x2F
      else if e = 0x62 then Some 0x08
      else if e = 0x66 then Some 0x0C
      else if e = 0x6E then Some 0x0A
      else if e = 0x72 then Some 0x0D
      else if e = 0x74 then Some 0x09
      else None)"

fun parse_chars :: "jsstring \<Rightarrow> (jsstring \<times> jsstring) option" where
  "parse_chars [] = None"
| "parse_chars (c # cs) =
     (if c = 0x22 then Some ([], cs)
      else if c = 0x5C then
        (case cs of
           [] \<Rightarrow> None
         | e # r \<Rightarrow>
             if e = 0x75 then
               (if length r < 4 then None
                else (case hex4 (take 4 r) of
                        None \<Rightarrow> None
                      | Some u \<Rightarrow> map_option (apfst ((#) u)) (parse_chars (drop 4 r))))
             else (case unescape e of
                     None \<Rightarrow> None
                   | Some u \<Rightarrow> map_option (apfst ((#) u)) (parse_chars r)))
      else if c < 0x20 then None
      else map_option (apfst ((#) c)) (parse_chars cs))"

definition digits_value :: "jsstring \<Rightarrow> nat" where
  "digits_value ds = foldl (\<lambda>acc d. 10 * acc + (unat d - 48)) 0 ds"

definition parse_nat :: "jsstring \<Rightarrow> (nat \<times> jsstring) option" where
  "parse_nat s =
     (case s of
        [] \<Rightarrow> None
      | c # cs \<Rightarrow>
          if c = 0x30 then Some (0, cs)
          else if is_digit c then Some (digits_value (takeWhile is_digit s), dropWhile is_digit s)
          else None)"

definition number_ends :: "jsstring \<Rightarrow> bool" where
  "number_ends r = (case r of [] \<Rightarrow> True | c # cs \<Rightarrow> c \<noteq> 0x2E \<and> c \<noteq> 0x65 \<and> c \<noteq> 0x45)"

definition parse_number :: "jsstring \<Rightarrow> (int \<times> jsstring) option" where
  "parse_number s =
     (case s of
        [] \<Rightarrow> None
      | c # cs \<Rightarrow>
          (case (if c = 0x2D then parse_nat cs else parse_nat s) of
             None \<Rightarrow> None
           | Some (n, r) \<Rightarrow>
               if number_ends r then Some (if c = 0x2D then - int n else int n, r) else None))"

fun obj_put :: "jsstring \<Rightarrow> json \<Rightarrow> (jsstring \<times> json) list \<Rightarrow> (jsstring \<times> json) list" where
  "obj_put k v [] = [(k, v)]"
| "obj_put k v (p # ps) = (if fst p = k then (k, v) # ps else p # obj_put k v ps)"

fun parse_value :: "nat \<Rightarrow> jsstring \<Rightarrow> (json \<times> jsstring) option"
  and parse_elements :: "nat \<Rightarrow> jsstring \<Rightarrow> json list \<Rightarrow> (json \<times> jsstring) option"
  and parse_members ::
    "nat \<Rightarrow> jsstring \<Rightarrow> (jsstring \<times> json) list \<Rightarrow> (json \<times> jsstring) option" where
  "parse_value 0 s = None"
| "parse_value (Suc n) s =
     (case s of
        [] \<Rightarrow> None
      | c # cs \<Rightarrow>
          if c = 0x7B then
            (case skip_ws cs of
               [] \<Rightarrow> None
             | d # ds \<Rightarrow> if d = 0x7D then Some (JObj [], ds) else parse_members n (d # ds) [])
          else if c = 0x5B then
            (case skip_ws cs of
               [] \<Rightarrow> None
             | d # ds \<Rightarrow> if d = 0x5D then Some (JArr [], ds) else parse_elements n (d # ds) [])
          else if c = 0x22 then map_option (apfst JStr) (parse_chars cs)
          else if starts_with s (js ''true'') then Some (JBool True, drop 4 s)
          else if starts_with s (js ''false'') then Some (JBool False, drop 5 s)
          else if starts_with s (js ''null'') then Some (JNull, drop 4 s)
          else map_option (apfst JNum) (parse_number s))"
| "parse_elements 0 s acc = None"
| "parse_elements (Suc n) s acc =
     (case parse_value n s of
        None \<Rightarrow> None
      | Some (v, r) \<Rightarrow>
          (case skip_ws r of
             [] \<Rightarrow> None
           | c # cs \<Rightarrow>
               if c = 0x2C then parse_elements n (skip_ws cs) (acc @ [v])
               else if c = 0x5D then Some (JArr (acc @ [v]), cs)
               else None))"
| "parse_members 0 s acc = None"
| "parse_members (Suc n) s acc =
     (case s of
        [] \<Rightarrow> None
      | q # qs \<Rightarrow>
          if q \<noteq> 0x22 then None
          else
            (case parse_chars qs of
               None \<Rightarrow> None
             | Some (k, r) \<Rightarrow>
                 (case skip_ws r of
                    [] \<Rightarrow> None
                  | c # cs \<Rightarrow>
                      if c \<noteq> 0x3A then None
                      else
                        (case parse_value n (skip_ws cs) of
                           None \<Rightarrow> None
                         | Some (v, r') \<Rightarrow>
                             (case skip_ws r' of
                                [] \<Rightarrow> None
                              | e # es \<Rightarrow>
                                  if e = 0x2C then parse_members n (skip_ws es) (obj_put k v acc)
                                  else if e = 0x7D then Some (JObj (obj_put k v acc), es)
                                  else None)))))"

definition JSON_parse :: "jsstring \<Rightarrow> json option" where
  "JSON_parse text =
     (case parse_value (2 * length text + 2) (skip_ws text) of
        None \<Rightarrow> None
      | Some (v, r) \<Rightarrow> if skip_ws r = [] then Some v else None)"














section \<open>Auxiliary notions for the proofs about JSON text\<close>







fun need :: "json \<Rightarrow> nat"
  and need_elems :: "json list \<Rightarrow> nat"
  and need_members :: "(jsstring \<times> json) list \<Rightarrow> nat" where
  "need JNull = 1"
| "need (JBool b) = 1"
| "need (JNum n) = 1"
| "need (JStr s) = 1"
| "need (JArr vs) = Suc (need_elems vs)"
| "need (JObj kvs) = Suc (need_members kvs)"
| "need_elems [] = 0"
| "need_elems (v # vs) = Suc (need v + need_elems vs)"
| "need_members [] = 0"
| "need_members ((k, v) # kvs) = Suc (need v + need_members kvs)"


section \<open>Concrete inputs for the examples\<close>

definition no_upper :: "jsstring \<Rightarrow> jsstring" where
  "no_upper s = s"

definition gen_timeout :: generate where
  "gen_timeout attempt model policy cmd = Threw RequestTimedOut"

definition config_of_flags :: "bool \<Rightarrow> bool \<Rightarrow> bool \<Rightarrow> json" where
  "config_of_flags enabled useLocal staticOnly =
     JObj [(js ''ENABLE_SECAGENT'', JBool enabled),
           (js ''USE_LOCAL_LLM'', JBool useLocal),
           (js ''USE_STATIC_CHECKS_ONLY'', JBool staticOnly),
           (js ''SECURITY_POLICY'', JStr (js ''only listing is safe''))]"

definition agent_llm :: secagent where
  "agent_llm = \<lparr>secagentconfig = config_of_flags True True False, availableModels = [js ''mistral'']\<rparr>"

definition agent_static :: secagent where
  "agent_static = \<lparr>secagentconfig = config_of_flags True False True, availableModels = []\<rparr>"

definition agent_disabled :: secagent where
  "agent_disabled = \<lparr>secagentconfig = config_of_flags False True False, availableModels = [js ''llama2'']\<rparr>"

definition never_parses :: "jsstring \<Rightarrow> json option" where
  "never_parses text = None"

definition all_writable :: "jsstring \<Rightarrow> bool" where
  "all_writable path = False"

definition no_files :: filesystem where
  "no_files = \<lparr>files = Map.empty, unwritable = all_writable\<rparr>"

definition broken_config_fs :: filesystem where
  "broken_config_fs = no_files\<lparr>files := [js ''cfg'' \<mapsto> js ''{oops'']\<rparr>"

definition res_ok :: CommandResult where
  "res_ok = \<lparr>exitCode = 0, signal = [], stdout = js ''a.txt'', stderr = [],
              completedAt = js ''2025-01-01T00:00:02.000Z''\<rparr>"

definition res_fail :: CommandResult where
  "res_fail = \<lparr>exitCode = 2, signal = [], stdout = [], stderr = js ''ls: error'',
                completedAt = js ''2025-01-01T00:00:09.000Z''\<rparr>"

definition cmd_ls_1 :: CommandInfo where
  "cmd_ls_1 = \<lparr>command = js ''ls'', executedAt = js ''2025-01-01T00:00:01.000Z'', result = None\<rparr>"

definition cmd_ls_2 :: CommandInfo where
  "cmd_ls_2 = \<lparr>command = js ''ls'', executedAt = js ''2025-01-01T00:00:08.000Z'', result = None\<rparr>"

definition cmd_pwd :: CommandInfo where
  "cmd_pwd = \<lparr>command = js ''pwd'', executedAt = js ''2025-01-01T00:00:05.000Z'', result = None\<rparr>"

definition conn0 :: ConnectionInfo where
  "conn0 = \<lparr>host = js ''example.org'', port = 22, username = js ''alice'',
             connectedAt = js ''2025-01-01T00:00:00.000Z''\<rparr>"

definition session_two_ls :: sessionManager where
  "session_two_ls = \<lparr>connectionInfo = Some conn0, commands = [cmd_ls_1, cmd_pwd, cmd_ls_2]\<rparr>"

definition session_ls_done :: sessionManager where
  "session_ls_done =
     \<lparr>connectionInfo = Some conn0, commands = [cmd_ls_1\<lparr>result := Some res_ok\<rparr>, cmd_pwd]\<rparr>"

definition empty_checkpoint :: SessionCheckpoint where
  "empty_checkpoint = \<lparr>ckpt_connectionInfo = None, ckpt_commands = Some []\<rparr>"

definition done_checkpoint :: SessionCheckpoint where
  "done_checkpoint =
     \<lparr>ckpt_connectionInfo = Some conn0,
        ckpt_commands = Some [cmd_ls_1\<lparr>result := Some res_ok\<rparr>, cmd_pwd]\<rparr>"

definition blank_checkpoint :: SessionCheckpoint where
  "blank_checkpoint = \<lparr>ckpt_connectionInfo = None, ckpt_commands = None\<rparr>"


definition bare_checkpoint :: jsvalue where
  "bare_checkpoint = VObj [(js ''commands'', VArr [])]"

definition bare_text :: jsstring where
  "bare_text = js ''{'' @ [0x0A] @ js ''  '' @ [0x22] @ js ''commands'' @ [0x22] @ js '': []''
                 @ [0x0A] @ js ''}''"


section \<open>Properties of the security agent\<close>

lemma own_prop_not_null: "own_prop cfg k = Some v \<Longrightarrow> cfg \<noteq> JNull"
  by (cases cfg) (auto simp: own_prop_def)

lemma get_prop_own_prop: "cfg \<noteq> JNull \<Longrightarrow> get_prop cfg k = Inr (own_prop cfg k)"
  by (cases cfg) (auto simp: own_prop_def)

declare retry_loop.simps [simp del]

lemma retry_loop_all_fail:
  "(\<And>j. k \<le> j \<Longrightarrow> j \<le> MAX_RETRIES \<Longrightarrow> isl (attempt_once upper gen a c j)) \<Longrightarrow>
   retry_loop upper gen a c k tr = (None, tr @ map Classifier [k..<Suc MAX_RETRIES])"
proof (induction upper gen a c k tr rule: retry_loop.induct)
  case (1 upper gen a command attempt performed)
  show ?case
  proof (cases "attempt \<le> MAX_RETRIES")
    case True
    then have "isl (attempt_once upper gen a command attempt)"
      using "1.prems" by simp
    then obtain e where e: "attempt_once upper gen a command attempt = Inl e"
      by (cases "attempt_once upper gen a command attempt") auto
    have "retry_loop upper gen a command (attempt + 1) (performed @ [Classifier attempt])
            = (None, (performed @ [Classifier attempt]) @ map Classifier [attempt + 1..<Suc MAX_RETRIES])"
      using "1.IH" [OF True e] "1.prems" by simp
    moreover have "[attempt..<Suc MAX_RETRIES] = attempt # [attempt + 1..<Suc MAX_RETRIES]"
      using True by (simp add: upt_conv_Cons)
    ultimately show ?thesis
      using True e by (subst retry_loop.simps) simp
  next
    case False
    then show ?thesis by (subst retry_loop.simps) simp
  qed
qed

lemma classifier_attempts: "map Classifier [1..<Suc MAX_RETRIES] = [Classifier 1, Classifier 2, Classifier 3]"
  by code_simp

lemma never_throws:
  assumes "secagentconfig a \<noteq> JNull"
  shows "\<exists>v. checkCommandSafety upper gen a c = Inr v"
proof -
  obtain v tr where "retry_loop upper gen a c 1 [DenyPatterns] = (v, tr)"
    by (cases "retry_loop upper gen a c 1 [DenyPatterns]") auto
  then show ?thesis
    using get_prop_own_prop [OF assms]
    by (cases v) (auto simp: checkCommandSafety_def)
qed

text \<open>
  Claim C1. When \<open>ENABLE_SECAGENT\<close> is \<open>true\<close> and the command matches one of the
  deny patterns, \<open>checkCommandSafety\<close> returns UNSAFE after the deny-pattern check alone,
  whatever the other properties of the configuration, the available models and the
  classifier are.
\<close>

theorem deny_pattern_unsafe:
  assumes "own_prop (secagentconfig a) (js ''ENABLE_SECAGENT'') = Some (JBool True)"
    and "isObviouslyUnsafe c"
  shows "checkCommandSafety upper gen a c = Inr (False, [DenyPatterns])"
  using assms get_prop_own_prop [OF own_prop_not_null [OF assms(1)]]
  by (simp add: checkCommandSafety_def)

theorem deny_pattern_unsafe_witness:
  "checkCommandSafety no_upper gen_timeout
     \<lparr>secagentconfig = config_of_flags True False False, availableModels = [js ''llama2'']\<rparr>
     (js ''sudo rm -rf /*'') = Inr (False, [DenyPatterns]) \<and>
   checkCommandSafety no_upper gen_timeout
     \<lparr>secagentconfig = config_of_flags True False True, availableModels = [js ''llama2'']\<rparr>
     (js ''sudo rm -rf /*'') = Inr (False, [DenyPatterns]) \<and>
   checkCommandSafety no_upper gen_timeout
     \<lparr>secagentconfig = config_of_flags True True False, availableModels = [js ''llama2'']\<rparr>
     (js ''sudo rm -rf /*'') = Inr (False, [DenyPatterns]) \<and>
   checkCommandSafety no_upper gen_timeout
     \<lparr>secagentconfig = config_of_flags True True True, availableModels = [js ''llama2'']\<rparr>
     (js ''sudo rm -rf /*'') = Inr (False, [DenyPatterns])"
proof -
  have 1: "own_prop (secagentconfig \<lparr>secagentconfig = config_of_flags True l s,
                       availableModels = [js ''llama2'']\<rparr>) (js ''ENABLE_SECAGENT'')
             = Some (JBool True)" for l s
    by (simp add: own_prop_def config_of_flags_def)
  have 2: "isObviouslyUnsafe (js ''sudo rm -rf /*'')" by code_simp
  show ?thesis
    by (intro conjI deny_pattern_unsafe [OF 1 2])
qed

text \<open>
  Claim C4, as stated, fails: \<open>echo mkfs\<close> matches the allow pattern for \<open>echo\<close>, but
  it also matches the deny pattern \<open>mkfs\<close>, and in static-only mode the verdict is UNSAFE.
\<close>

theorem static_only_counterexample:
  "isStaticallySafe (js ''echo mkfs'') \<and>
   checkCommandSafety no_upper gen_timeout agent_static (js ''echo mkfs'')
     = Inr (False, [DenyPatterns])"
proof -
  have 1: "own_prop (secagentconfig agent_static) (js ''ENABLE_SECAGENT'') = Some (JBool True)"
    by code_simp
  have 2: "isObviouslyUnsafe (js ''echo mkfs'')" by code_simp
  have 3: "isStaticallySafe (js ''echo mkfs'')" by code_simp
  have 4: "get_prop (secagentconfig agent_static) (js ''ENABLE_SECAGENT'') = Inr (Some (JBool True))"
    by code_simp
  show ?thesis using 2 3 4 by (simp add: checkCommandSafety_def)
qed

text \<open>
  Claim C4, amended. With \<open>ENABLE_SECAGENT\<close> and \<open>USE_STATIC_CHECKS_ONLY\<close> both
  \<open>true\<close>, the verdict is SAFE exactly when the command matches an allow pattern and
  no deny pattern; \<open>ls -la\<close> is SAFE and \<open>find / -name x\<close> is UNSAFE.
\<close>

theorem static_only_verdict:
  assumes "own_prop (secagentconfig a) (js ''ENABLE_SECAGENT'') = Some (JBool True)"
    and "own_prop (secagentconfig a) (js ''USE_STATIC_CHECKS_ONLY'') = Some (JBool True)"
  shows "(\<exists>tr. checkCommandSafety upper gen a c
                 = Inr (isStaticallySafe c \<and> \<not> isObviouslyUnsafe c, tr)) \<and>
         checkCommandSafety upper gen a (js ''ls -la'') = Inr (True, [DenyPatterns, AllowPatterns]) \<and>
         checkCommandSafety upper gen a (js ''find / -name x'')
           = Inr (False, [DenyPatterns, AllowPatterns])"
proof -
  have g: "get_prop (secagentconfig a) (js ''ENABLE_SECAGENT'') = Inr (Some (JBool True))"
    using get_prop_own_prop [OF own_prop_not_null [OF assms(1)]] assms(1) by simp
  have a: "\<not> isObviouslyUnsafe (js ''find / -name x'')" by code_simp
  have b: "\<not> isStaticallySafe (js ''find / -name x'')" by code_simp
  have c: "\<not> isObviouslyUnsafe (js ''ls -la'')" by code_simp
  have d: "isStaticallySafe (js ''ls -la'')" by code_simp
  show ?thesis
    using g assms(2) a b c d by (simp add: checkCommandSafety_def)
qed

theorem static_only_verdict_witness:
  "checkCommandSafety no_upper gen_timeout agent_static (js ''ls -la'')
     = Inr (True, [DenyPatterns, AllowPatterns]) \<and>
   checkCommandSafety no_upper gen_timeout agent_static (js ''find / -name x'')
     = Inr (False, [DenyPatterns, AllowPatterns])"
proof -
  have 1: "own_prop (secagentconfig agent_static) (js ''ENABLE_SECAGENT'') = Some (JBool True)"
    by code_simp
  have 2: "own_prop (secagentconfig agent_static) (js ''USE_STATIC_CHECKS_ONLY'') = Some (JBool True)"
    by code_simp
  show ?thesis
    using static_only_verdict [OF 1 2, of no_upper gen_timeout] by simp
qed

text \<open>
  Claim C5. When \<open>ENABLE_SECAGENT\<close> is \<open>false\<close>, \<open>checkCommandSafety\<close> returns SAFE
  for every command and performs no check: neither pattern list is consulted and no
  request goes to the classifier.
\<close>

theorem disabled_safe:
  assumes "own_prop (secagentconfig a) (js ''ENABLE_SECAGENT'') = Some (JBool False)"
  shows "checkCommandSafety upper gen a c = Inr (True, [])"
  using assms get_prop_own_prop [OF own_prop_not_null [OF assms]]
  by (simp add: checkCommandSafety_def)

theorem disabled_safe_witness:
  "isObviouslyUnsafe (js ''sudo rm -rf /*'') \<and>
   checkCommandSafety no_upper gen_timeout agent_disabled (js ''sudo rm -rf /*'') = Inr (True, [])"
proof -
  have 1: "own_prop (secagentconfig agent_disabled) (js ''ENABLE_SECAGENT'') = Some (JBool False)"
    by code_simp
  have 2: "isObviouslyUnsafe (js ''sudo rm -rf /*'')" by code_simp
  show ?thesis
    using disabled_safe [OF 1, of no_upper gen_timeout "js ''sudo rm -rf /*''"] 2 by simp
qed

text \<open>
  Claim C6. On the classifier path (agent enabled, no deny pattern matched, static-only
  mode off, local classifier on, some model available) \<open>checkCommandSafety\<close> never
  raises, whatever the classifier does; and when each of the \<open>MAX_RETRIES = 3\<close> attempts
  fails, the verdict is that of the allow patterns, after exactly three requests.
\<close>

theorem classifier_exhaustion:
  assumes "own_prop (secagentconfig a) (js ''ENABLE_SECAGENT'') = Some (JBool True)"
    and "\<not> isObviouslyUnsafe c"
    and "own_prop (secagentconfig a) (js ''USE_STATIC_CHECKS_ONLY'') \<noteq> Some (JBool True)"
    and "own_prop (secagentconfig a) (js ''USE_LOCAL_LLM'') = Some (JBool True)"
    and "availableModels a \<noteq> []"
  shows "(\<exists>v. checkCommandSafety upper gen a c = Inr v) \<and>
         ((\<forall>k. 1 \<le> k \<and> k \<le> MAX_RETRIES \<longrightarrow> isl (attempt_once upper gen a c k)) \<longrightarrow>
          checkCommandSafety upper gen a c
            = Inr (isStaticallySafe c,
                   [DenyPatterns, Classifier 1, Classifier 2, Classifier 3, AllowPatterns]))"
proof (intro conjI impI)
  have nn: "secagentconfig a \<noteq> JNull"
    by (rule own_prop_not_null [OF assms(1)])
  show "\<exists>v. checkCommandSafety upper gen a c = Inr v"
    by (rule never_throws [OF nn])
  assume fails: "\<forall>k. 1 \<le> k \<and> k \<le> MAX_RETRIES \<longrightarrow> isl (attempt_once upper gen a c k)"
  have "retry_loop upper gen a c 1 [DenyPatterns]
          = (None, [DenyPatterns] @ map Classifier [1..<Suc MAX_RETRIES])"
    by (rule retry_loop_all_fail) (use fails in blast)
  then have "retry_loop upper gen a c 1 [DenyPatterns]
          = (None, [DenyPatterns, Classifier 1, Classifier 2, Classifier 3])"
    by (simp only: classifier_attempts append.simps)
  then show "checkCommandSafety upper gen a c
            = Inr (isStaticallySafe c,
                   [DenyPatterns, Classifier 1, Classifier 2, Classifier 3, AllowPatterns])"
    using assms get_prop_own_prop [OF nn]
    by (simp add: checkCommandSafety_def)
qed

theorem classifier_exhaustion_witness:
  "checkCommandSafety no_upper gen_timeout agent_llm (js ''find / -name x'')
     = Inr (False, [DenyPatterns, Classifier 1, Classifier 2, Classifier 3, AllowPatterns])
   \<and> checkCommandSafety no_upper gen_timeout agent_llm (js ''ls -la'')
     = Inr (True, [DenyPatterns, Classifier 1, Classifier 2, Classifier 3, AllowPatterns])"
proof -
  have 1: "own_prop (secagentconfig agent_llm) (js ''ENABLE_SECAGENT'') = Some (JBool True)"
    by code_simp
  have 3: "own_prop (secagentconfig agent_llm) (js ''USE_STATIC_CHECKS_ONLY'') \<noteq> Some (JBool True)"
    by code_simp
  have 4: "own_prop (secagentconfig agent_llm) (js ''USE_LOCAL_LLM'') = Some (JBool True)"
    by code_simp
  have 5: "availableModels agent_llm \<noteq> []"
    by (simp add: agent_llm_def)
  have f: "\<forall>k. 1 \<le> k \<and> k \<le> MAX_RETRIES \<longrightarrow> isl (attempt_once no_upper gen_timeout agent_llm c k)" for c
    by (simp add: attempt_once_def gen_timeout_def)
  have a: "\<not> isObviouslyUnsafe (js ''find / -name x'')" by code_simp
  have b: "\<not> isStaticallySafe (js ''find / -name x'')" by code_simp
  have c: "\<not> isObviouslyUnsafe (js ''ls -la'')" by code_simp
  have d: "isStaticallySafe (js ''ls -la'')" by code_simp
  show ?thesis
    using classifier_exhaustion [OF 1 a 3 4 5, of no_upper gen_timeout]
      classifier_exhaustion [OF 1 c 3 4 5, of no_upper gen_timeout] f b d
    by simp
qed

text \<open>
  Claim C9, as stated, fails: the policy text of the fallback configuration is not
  \<open>only listing is safe\<close>.
\<close>

theorem config_fallback_counterexample:
  "secagentconfig (secagent_constructor never_parses no_files (js ''secagentconfig.json''))
     \<noteq> JObj [(js ''ENABLE_SECAGENT'', JBool False),
             (js ''SECURITY_POLICY'', JStr (js ''only listing is safe''))]"
  by code_simp

text \<open>
  Claim C9, amended. When the configuration file cannot be read or does not parse, the
  configuration becomes \<open>ENABLE_SECAGENT: false\<close> with the policy text
  \<open>Only 'ls' command is safe\<close>, no model is available, and every later
  \<open>checkCommandSafety\<close> returns SAFE without any check.
\<close>

theorem config_fallback:
  assumes "(\<exists>e. readFileSync fs path = Inl e) \<or>
           (\<exists>text. readFileSync fs path = Inr text \<and> parse text = None)"
  shows "secagent_constructor parse fs path
           = \<lparr>secagentconfig =
                JObj [(js ''ENABLE_SECAGENT'', JBool False),
                      (js ''SECURITY_POLICY'',
                       JStr (js ''Only '' @ [0x27] @ js ''ls'' @ [0x27] @ js '' command is safe''))],
              availableModels = []\<rparr> \<and>
         checkCommandSafety upper gen (secagent_constructor parse fs path) c = Inr (True, [])"
proof -
  have k: "secagent_constructor parse fs path
             = \<lparr>secagentconfig = default_config, availableModels = []\<rparr>"
    using assms by (auto simp: secagent_constructor_def)
  have d: "default_config
             = JObj [(js ''ENABLE_SECAGENT'', JBool False),
                     (js ''SECURITY_POLICY'',
                      JStr (js ''Only '' @ [0x27] @ js ''ls'' @ [0x27] @ js '' command is safe''))]"
    by (simp add: default_config_def js_def)
  have e: "get_prop default_config (js ''ENABLE_SECAGENT'') = Inr (Some (JBool False))"
    by code_simp
  show ?thesis
    using k d e by (simp add: checkCommandSafety_def)
qed

theorem config_fallback_witness:
  "secagentconfig (secagent_constructor never_parses broken_config_fs (js ''cfg''))
     = JObj [(js ''ENABLE_SECAGENT'', JBool False),
             (js ''SECURITY_POLICY'',
              JStr (js ''Only '' @ [0x27] @ js ''ls'' @ [0x27] @ js '' command is safe''))] \<and>
   checkCommandSafety no_upper gen_timeout
     (secagent_constructor never_parses broken_config_fs (js ''cfg''))
     (js ''sudo rm -rf /*'') = Inr (True, [])"
proof -
  have h: "(\<exists>e. readFileSync broken_config_fs (js ''cfg'') = Inl e) \<or>
           (\<exists>text. readFileSync broken_config_fs (js ''cfg'') = Inr text \<and> never_parses text = None)"
    by (simp add: never_parses_def broken_config_fs_def readFileSync_def)
  note r = config_fallback [where fs = broken_config_fs and path = "js ''cfg''"
        and parse = never_parses and upper = no_upper and gen = gen_timeout
        and c = "js ''sudo rm -rf /*''", OF h]
  have "secagentconfig (secagent_constructor never_parses broken_config_fs (js ''cfg''))
     = JObj [(js ''ENABLE_SECAGENT'', JBool False),
             (js ''SECURITY_POLICY'',
              JStr (js ''Only '' @ [0x27] @ js ''ls'' @ [0x27] @ js '' command is safe''))]"
    using conjunct1 [OF r] by simp
  then show ?thesis
    using conjunct2 [OF r] by blast
qed

section \<open>Properties of the session manager\<close>

lemma findIndex_Some_iff:
  "findIndex p xs = Some i \<longleftrightarrow> i < length xs \<and> p (xs ! i) \<and> (\<forall>j<i. \<not> p (xs ! j))"
proof (induction xs arbitrary: i)
  case Nil
  then show ?case by simp
next
  case (Cons x xs)
  show ?case
  proof (cases "p x")
    case True
    then show ?thesis by (cases i) auto
  next
    case False
    show ?thesis
    proof (cases i)
      case 0
      with False show ?thesis by auto
    next
      case (Suc k)
      have "(\<forall>j<Suc k. \<not> p ((x # xs) ! j)) \<longleftrightarrow> (\<forall>j<k. \<not> p (xs ! j))"
        using False by (auto simp: less_Suc_eq_0_disj)
      with False Suc Cons.IH [of k] show ?thesis by auto
    qed
  qed
qed

lemma findIndex_None_iff: "findIndex p xs = None \<longleftrightarrow> (\<forall>x\<in>set xs. \<not> p x)"
  by (induction xs) auto

lemma setCommandResult_Some:
  "findIndex (\<lambda>cmd. command cmd = c) (commands s) = Some i \<Longrightarrow>
   setCommandResult c r s = s\<lparr>commands := (commands s)[i := (commands s ! i)\<lparr>result := Some r\<rparr>]\<rparr>"
  by (simp add: setCommandResult_def)

lemma setCommandResult_None:
  "findIndex (\<lambda>cmd. command cmd = c) (commands s) = None \<Longrightarrow> setCommandResult c r s = s"
  by (simp add: setCommandResult_def)

lemma js_neq [simp]: "js ''pwd'' \<noteq> js ''ls''" "js ''ls'' \<noteq> js ''pwd''"
  by (simp_all add: js_def)

text \<open>
  Claim C2, as stated, fails: with two records for \<open>ls\<close> in the history, the result
  goes to the one appended first, and the latest one stays without a result.
\<close>

theorem most_recent_counterexample:
  "command (commands session_two_ls ! 2) = js ''ls'' \<and>
   result (commands (setCommandResult (js ''ls'') res_ok session_two_ls) ! 2) = None \<and>
   result (commands (setCommandResult (js ''ls'') res_ok session_two_ls) ! 0) = Some res_ok"
  by (simp add: setCommandResult_def session_two_ls_def cmd_ls_1_def cmd_ls_2_def cmd_pwd_def)

text \<open>
  Claim C2, amended. \<open>setCommandResult\<close> attaches the result to the first record, in
  order of appending, whose command text equals the given command: that record gets
  the result, and no record before it has that text.
\<close>

theorem result_attached_to_first_match:
  assumes "findIndex (\<lambda>cmd. command cmd = c) (commands s) = Some i"
  shows "i < length (commands s) \<and> command (commands s ! i) = c \<and>
         (\<forall>j<i. command (commands s ! j) \<noteq> c) \<and>
         commands (setCommandResult c r s)
           = (commands s)[i := (commands s ! i)\<lparr>result := Some r\<rparr>] \<and>
         result (commands (setCommandResult c r s) ! i) = Some r"
  using assms findIndex_Some_iff [of "\<lambda>cmd. command cmd = c" "commands s" i]
  by (simp add: setCommandResult_Some)

theorem result_attached_to_first_match_witness:
  "commands (setCommandResult (js ''ls'') res_ok session_two_ls)
     = [cmd_ls_1\<lparr>result := Some res_ok\<rparr>, cmd_pwd, cmd_ls_2]"
proof -
  have h: "findIndex (\<lambda>cmd. command cmd = js ''ls'') (commands session_two_ls) = Some 0"
    by (simp add: session_two_ls_def cmd_ls_1_def)
  show ?thesis
    using result_attached_to_first_match [OF h, of res_ok]
    by (simp add: session_two_ls_def)
qed

text \<open>
  Claim C10. \<open>setCommandResult\<close> leaves the connection metadata and the number of
  records as they are, changes no record but the one at the index \<open>findIndex\<close> yields,
  and changes nothing at all when no record has the given command text.
\<close>

theorem set_result_frame:
  "connectionInfo (setCommandResult c r s) = connectionInfo s \<and>
   length (commands (setCommandResult c r s)) = length (commands s) \<and>
   (\<forall>j<length (commands s).
        findIndex (\<lambda>cmd. command cmd = c) (commands s) \<noteq> Some j \<longrightarrow>
        commands (setCommandResult c r s) ! j = commands s ! j) \<and>
   ((\<forall>cmd\<in>set (commands s). command cmd \<noteq> c) \<longrightarrow> setCommandResult c r s = s)"
proof (cases "findIndex (\<lambda>cmd. command cmd = c) (commands s)")
  case None
  then show ?thesis by (simp add: setCommandResult_None)
next
  case (Some i)
  then have "\<exists>cmd\<in>set (commands s). command cmd = c"
    using findIndex_None_iff [of "\<lambda>cmd. command cmd = c" "commands s"] by auto
  with Some show ?thesis by (auto simp: setCommandResult_Some)
qed

theorem set_result_frame_witness:
  "connectionInfo (setCommandResult (js ''ls'') res_ok session_two_ls) = Some conn0 \<and>
   length (commands (setCommandResult (js ''ls'') res_ok session_two_ls)) = 3 \<and>
   commands (setCommandResult (js ''ls'') res_ok session_two_ls) ! 1 = cmd_pwd \<and>
   commands (setCommandResult (js ''ls'') res_ok session_two_ls) ! 2 = cmd_ls_2 \<and>
   setCommandResult (js ''date'') res_ok session_two_ls = session_two_ls"
proof -
  have h: "findIndex (\<lambda>cmd. command cmd = js ''ls'') (commands session_two_ls) = Some 0"
    by (simp add: session_two_ls_def cmd_ls_1_def)
  have n: "\<forall>cmd\<in>set (commands session_two_ls). command cmd \<noteq> js ''date''"
    by (simp add: session_two_ls_def cmd_ls_1_def cmd_ls_2_def cmd_pwd_def js_def)
  have l: "length (commands session_two_ls) = 3" "commands session_two_ls ! 1 = cmd_pwd"
    "commands session_two_ls ! 2 = cmd_ls_2" "connectionInfo session_two_ls = Some conn0"
    by (simp_all add: session_two_ls_def)
  show ?thesis
    using set_result_frame [of "js ''ls''" res_ok session_two_ls]
      set_result_frame [of "js ''date''" res_ok session_two_ls] h n l
    by simp
qed

text \<open>
  Claim C8, as stated, fails in the absent case: restoring a checkpoint without
  \<open>connectionInfo\<close> keeps the connection metadata the session had before.
\<close>

theorem restore_counterexample:
  "connectionInfo (restoreFromCheckpoint empty_checkpoint session_two_ls) = Some conn0 \<and>
   ckpt_connectionInfo empty_checkpoint = None \<and> ckpt_commands empty_checkpoint = Some []"
  by (simp add: restoreFromCheckpoint_def empty_checkpoint_def session_two_ls_def)

text \<open>
  Claim C8, amended. After \<open>restoreFromCheckpoint\<close> the command list is that of the
  checkpoint, whatever it was before, whenever the checkpoint has a \<open>commands\<close> array, as
  every value of the interface type has; a value without one leaves the list as it was.
  The connection metadata is that of the checkpoint when the checkpoint has one, and the
  prior metadata otherwise.
\<close>

theorem restore_replaces:
  "commands (restoreFromCheckpoint cp s)
     = (case ckpt_commands cp of Some cmds \<Rightarrow> cmds | None \<Rightarrow> commands s) \<and>
   connectionInfo (restoreFromCheckpoint cp s)
     = (case ckpt_connectionInfo cp of Some info \<Rightarrow> Some info | None \<Rightarrow> connectionInfo s) \<and>
   (\<forall>cmds. ckpt_commands cp = Some cmds \<longrightarrow>
      commands (restoreFromCheckpoint cp s) = commands (restoreFromCheckpoint cp s'))"
proof (intro conjI allI impI)
  show "commands (restoreFromCheckpoint cp s)
          = (case ckpt_commands cp of Some cmds \<Rightarrow> cmds | None \<Rightarrow> commands s)"
    by (cases "ckpt_connectionInfo cp"; cases "ckpt_commands cp")
       (simp_all add: restoreFromCheckpoint_def)
  show "connectionInfo (restoreFromCheckpoint cp s)
          = (case ckpt_connectionInfo cp of Some info \<Rightarrow> Some info | None \<Rightarrow> connectionInfo s)"
    by (cases "ckpt_connectionInfo cp"; cases "ckpt_commands cp")
       (simp_all add: restoreFromCheckpoint_def)
  fix cmds assume "ckpt_commands cp = Some cmds"
  then show "commands (restoreFromCheckpoint cp s) = commands (restoreFromCheckpoint cp s')"
    by (cases "ckpt_connectionInfo cp") (simp_all add: restoreFromCheckpoint_def)
qed

theorem restore_replaces_witness:
  "commands (restoreFromCheckpoint done_checkpoint session_two_ls)
     = [cmd_ls_1\<lparr>result := Some res_ok\<rparr>, cmd_pwd] \<and>
   commands (restoreFromCheckpoint done_checkpoint new_sessionManager)
     = [cmd_ls_1\<lparr>result := Some res_ok\<rparr>, cmd_pwd] \<and>
   connectionInfo (restoreFromCheckpoint done_checkpoint new_sessionManager) = Some conn0 \<and>
   connectionInfo (restoreFromCheckpoint empty_checkpoint session_two_ls) = Some conn0 \<and>
   commands (restoreFromCheckpoint empty_checkpoint session_two_ls) = [] \<and>
   commands (restoreFromCheckpoint blank_checkpoint session_two_ls)
     = [cmd_ls_1, cmd_pwd, cmd_ls_2]"
  using restore_replaces [of done_checkpoint session_two_ls session_two_ls]
    restore_replaces [of done_checkpoint new_sessionManager session_two_ls]
    restore_replaces [of empty_checkpoint session_two_ls session_two_ls]
    restore_replaces [of blank_checkpoint session_two_ls session_two_ls]
  by (simp add: done_checkpoint_def empty_checkpoint_def blank_checkpoint_def
      session_two_ls_def)

lemma apply_op_keeps_texts:
  "length (commands s) \<le> length (commands (apply_op s op)) \<and>
   (\<forall>k<length (commands s).
      command (commands (apply_op s op) ! k) = command (commands s ! k) \<and>
      executedAt (commands (apply_op s op) ! k) = executedAt (commands s ! k))"
proof (cases op)
  case (SetConnectionInfo info)
  then show ?thesis by (simp add: setConnectionInfo_def)
next
  case (AddCommand cmd now)
  then show ?thesis by (simp add: addCommand_def nth_append)
next
  case (SetCommandResult cmd res)
  show ?thesis
  proof (cases "findIndex (\<lambda>x. command x = cmd) (commands s)")
    case None
    with SetCommandResult show ?thesis by (simp add: setCommandResult_def)
  next
    case (Some a)
    then have "a < length (commands s)" by (simp add: findIndex_Some_iff)
    with Some SetCommandResult show ?thesis
      by (simp add: setCommandResult_def nth_list_update)
  qed
qed

lemma apply_op_keeps_record:
  assumes "k < length (commands s)"
    and "\<And>c r. op = SetCommandResult c r \<Longrightarrow>
           findIndex (\<lambda>cmd. command cmd = c) (commands s) \<noteq> Some k"
  shows "commands (apply_op s op) ! k = commands s ! k"
proof (cases op)
  case (SetConnectionInfo info)
  then show ?thesis by (simp add: setConnectionInfo_def)
next
  case (AddCommand cmd now)
  with assms(1) show ?thesis by (simp add: addCommand_def nth_append)
next
  case (SetCommandResult cmd res)
  with assms(2) have "findIndex (\<lambda>x. command x = cmd) (commands s) \<noteq> Some k" by simp
  with SetCommandResult show ?thesis
    by (cases "findIndex (\<lambda>x. command x = cmd) (commands s)")
       (auto simp: setCommandResult_def)
qed

lemma run_ops_snoc: "run_ops s (ops @ [op]) = apply_op (run_ops s ops) op"
  by (simp add: run_ops_def)

lemma run_ops_keeps_texts:
  "length (commands s) \<le> length (commands (run_ops s ops)) \<and>
   (\<forall>k<length (commands s).
      command (commands (run_ops s ops) ! k) = command (commands s ! k) \<and>
      executedAt (commands (run_ops s ops) ! k) = executedAt (commands s ! k))"
proof (induction ops rule: rev_induct)
  case Nil
  then show ?case by (simp add: run_ops_def)
next
  case (snoc op ops)
  show ?case
    using snoc.IH apply_op_keeps_texts [of "run_ops s ops" op]
    by (auto simp: run_ops_snoc)
qed

lemma findIndex_stable:
  assumes "length xs \<le> length ys"
    and "\<forall>k<length xs. p (ys ! k) = p (xs ! k)"
    and "i < length xs"
  shows "findIndex p ys = Some i \<longleftrightarrow> findIndex p xs = Some i"
  using assms by (auto simp: findIndex_Some_iff)

text \<open>
  Claim C3, as stated, fails: a record that has a result gets another one when the same
  command text is dispatched and completed again.
\<close>

theorem record_immutable_counterexample:
  "result (commands session_ls_done ! 0) = Some res_ok \<and>
   result (commands (run_ops session_ls_done
                       [AddCommand (js ''ls'') (js ''2025-01-01T00:00:08.000Z''),
                        SetCommandResult (js ''ls'') res_fail]) ! 0) = Some res_fail \<and>
   res_fail \<noteq> res_ok"
  by (simp add: run_ops_def session_ls_done_def addCommand_def setCommandResult_def
      cmd_ls_1_def cmd_pwd_def res_ok_def res_fail_def)

text \<open>
  Claim C3, amended. Under every sequence of \<open>addCommand\<close>, \<open>setCommandResult\<close> and
  \<open>setConnectionInfo\<close> a record keeps its position, its command text and its
  \<open>executedAt\<close>; and it stays unchanged in every field unless the sequence holds a
  \<open>setCommandResult\<close> for whose command text this record is the first match.
\<close>

theorem record_stable:
  assumes "i < length (commands s)"
  shows "i < length (commands (run_ops s ops)) \<and>
         command (commands (run_ops s ops) ! i) = command (commands s ! i) \<and>
         executedAt (commands (run_ops s ops) ! i) = executedAt (commands s ! i) \<and>
         ((\<forall>c r. SetCommandResult c r \<in> set ops \<longrightarrow>
                 findIndex (\<lambda>cmd. command cmd = c) (commands s) \<noteq> Some i) \<longrightarrow>
          commands (run_ops s ops) ! i = commands s ! i)"
proof (intro conjI impI)
  show "i < length (commands (run_ops s ops))"
    using run_ops_keeps_texts [of s ops] assms by simp
  show "command (commands (run_ops s ops) ! i) = command (commands s ! i)"
    using run_ops_keeps_texts [of s ops] assms by simp
  show "executedAt (commands (run_ops s ops) ! i) = executedAt (commands s ! i)"
    using run_ops_keeps_texts [of s ops] assms by simp
  assume "\<forall>c r. SetCommandResult c r \<in> set ops \<longrightarrow>
                 findIndex (\<lambda>cmd. command cmd = c) (commands s) \<noteq> Some i"
  then show "commands (run_ops s ops) ! i = commands s ! i"
  proof (induction ops rule: rev_induct)
    case Nil
    then show ?case by (simp add: run_ops_def)
  next
    case (snoc op ops)
    let ?t = "run_ops s ops"
    have keep: "length (commands s) \<le> length (commands ?t)"
      "\<forall>k<length (commands s). command (commands ?t ! k) = command (commands s ! k)"
      using run_ops_keeps_texts [of s ops] by simp_all
    have IH: "commands ?t ! i = commands s ! i"
      using snoc.IH snoc.prems by auto
    have "findIndex (\<lambda>cmd. command cmd = c) (commands ?t) \<noteq> Some i"
      if "op = SetCommandResult c r" for c r
    proof -
      have "findIndex (\<lambda>cmd. command cmd = c) (commands s) \<noteq> Some i"
        using snoc.prems that by simp
      moreover have "\<forall>k<length (commands s).
          (command (commands ?t ! k) = c) = (command (commands s ! k) = c)"
        using keep(2) by simp
      ultimately show ?thesis
        using findIndex_stable [of "commands s" "commands ?t" "\<lambda>cmd. command cmd = c" i]
          keep(1) assms by simp
    qed
    then have "commands (apply_op ?t op) ! i = commands ?t ! i"
      using apply_op_keeps_record [of i ?t op] keep(1) assms by simp
    with IH show ?case by (simp add: run_ops_snoc)
  qed
qed

theorem record_stable_witness:
  "commands (run_ops session_ls_done
               [AddCommand (js ''pwd'') (js ''2025-01-01T00:00:08.000Z''),
                SetCommandResult (js ''pwd'') res_fail,
                SetConnectionInfo conn0]) ! 0
     = cmd_ls_1\<lparr>result := Some res_ok\<rparr>"
proof -
  have i: "0 < length (commands session_ls_done)"
    by (simp add: session_ls_done_def)
  have f: "findIndex (\<lambda>cmd. command cmd = js ''pwd'') (commands session_ls_done) = Some 1"
    by (simp add: session_ls_done_def cmd_ls_1_def cmd_pwd_def)
  have z: "commands session_ls_done ! 0 = cmd_ls_1\<lparr>result := Some res_ok\<rparr>"
    by (simp add: session_ls_done_def)
  show ?thesis
    using record_stable [OF i, of "[AddCommand (js ''pwd'') (js ''2025-01-01T00:00:08.000Z''),
                SetCommandResult (js ''pwd'') res_fail, SetConnectionInfo conn0]"] f z
    by simp
qed

section \<open>Properties of JSON text and of the checkpoint file\<close>

subsection \<open>Strings\<close>











declare digits.simps [simp del]






























lemma need_pos: "0 < need v"
  by (cases v) auto




subsection \<open>Printed text survives the UTF-8 file\<close>



















subsection \<open>The checkpoint round trip\<close>



























text \<open>
  The printed text of the checkpoint of a session that never connected and has no
  commands: the member \<open>connectionInfo\<close> is not printed. The parser on some texts: a
  repeated key, a trailing comma, a leading zero.
\<close>

lemma stringify_examples:
  "JSON_stringify (getCheckpoint new_sessionManager) = Some bare_text"
  "JSON_stringify bare_checkpoint = Some bare_text"
  "JSON_stringify VUndefined = None"
  "JSON_stringify (VArr [VUndefined, VNum (-7)])
     = Some (js ''['' @ [0x0A] @ js ''  null,'' @ [0x0A] @ js ''  -7'' @ [0x0A] @ js '']'')"
  by code_simp+

lemma parse_examples:
  "JSON_parse (js ''{'' @ [0x22] @ js ''a'' @ [0x22] @ js '': [-12, 0, true, null], ''
               @ [0x22] @ js ''b'' @ [0x22] @ js '' : {}, '' @ [0x22] @ js ''a'' @ [0x22]
               @ js '':3}'')
     = Some (JObj [(js ''a'', JNum 3), (js ''b'', JObj [])])"
  "JSON_parse (js ''[1,]'') = None"
  "JSON_parse (js ''{oops'') = None"
  "JSON_parse (js ''01'') = None"
  "JSON_parse (js '' null '') = Some JNull"
  by code_simp+




end
